theory Spec2Isabelle
  imports Complex_Main
begin

section \<open>Python values and exceptions\<close>

text \<open>
  The scripts of the repository are Python. The values of a row of the occurrence table
  are the scalars the provider's JSON can hold: \<^verbatim>\<open>None\<close>, booleans, integers of any size,
  floats and strings. A string is a list of code points below 256 (the type \<open>char\<close>). A
  finite float is carried by the rational number that the binary64 value denotes; the
  negative zero, the two infinities and NaN are constructors of their own.

  The exceptions are the three built-in ones that the conversions raise, and the
  exception that the store client raises when an insert fails, with its message.
\<close>

datatype py_error = ValueError | TypeError | OverflowError | StoreError string

datatype pyfloat = Finite rat | NegZero | PosInf | NegInf | NaN

datatype pyval = PNone | PBool bool | PInt int | PFloat pyfloat | PStr string

subsection \<open>\<^verbatim>\<open>str.lower\<close>\<close>

text \<open>
  On code points below 256 \<^verbatim>\<open>str.lower\<close> adds 32 to the upper-case letters of ASCII
  (65 to 90) and of Latin-1 (192 to 222 without the multiplication sign 215).
\<close>

definition lower_char :: "char \<Rightarrow> char" where
  "lower_char c =
     (let n = (of_char c :: nat)
      in if (65 \<le> n \<and> n \<le> 90) \<or> (192 \<le> n \<and> n \<le> 222 \<and> n \<noteq> 215)
         then char_of (n + 32) else c)"

definition py_lower :: "string \<Rightarrow> string" where
  "py_lower s = map lower_char s"

subsection \<open>Decimal digits, \<^verbatim>\<open>str\<close> and \<^verbatim>\<open>int\<close> of integers\<close>

text \<open>
  \<^verbatim>\<open>str(n)\<close> of an integer raises \<^verbatim>\<open>ValueError\<close> when the result has more than 4300
  digits, and so does \<^verbatim>\<open>int(s)\<close> on a string with more than 4300 digits (the default of
  \<^verbatim>\<open>sys.set_int_max_str_digits\<close>). \<^verbatim>\<open>int(s)\<close> strips white space, reads an optional sign
  and then digits, where single underscores may stand between two digits.
\<close>

definition is_ascii_digit :: "char \<Rightarrow> bool" where
  "is_ascii_digit c = (c \<in> set ''0123456789'')"

definition digit_val :: "char \<Rightarrow> nat" where
  "digit_val c = of_char c - 48"

definition digits_val :: "string \<Rightarrow> nat" where
  "digits_val s = foldl (\<lambda>a c. 10 * a + digit_val c) 0 s"

definition digit_char :: "nat \<Rightarrow> char" where
  "digit_char d = char_of (48 + d)"

fun nat_digits :: "nat \<Rightarrow> string" where
  "nat_digits n = (if n < 10 then [digit_char n] else nat_digits (n div 10) @ [digit_char (n mod 10)])"

definition int_max_str_digits :: nat where
  "int_max_str_digits = 4300"

definition int_str :: "int \<Rightarrow> py_error + string" where
  "int_str n =
     (let ds = nat_digits (nat \<bar>n\<bar>)
      in if length ds > int_max_str_digits then Inl ValueError
         else Inr (if n < 0 then CHR ''-'' # ds else ds))"

definition is_num_space :: "char \<Rightarrow> bool" where
  "is_num_space c = ((of_char c :: nat) \<in> {9, 10, 11, 12, 13, 32, 133, 160})"

definition num_strip :: "string \<Rightarrow> string" where
  "num_strip s = rev (dropWhile is_num_space (rev (dropWhile is_num_space s)))"

fun digitpart :: "string \<Rightarrow> bool" where
  "digitpart [] = False"
| "digitpart [c] = is_ascii_digit c"
| "digitpart (c # d # cs) =
     (is_ascii_digit c \<and> (if d = CHR ''_'' then digitpart cs else digitpart (d # cs)))"

definition split_sign :: "string \<Rightarrow> bool \<times> string" where
  "split_sign s =
     (case s of
        c # cs \<Rightarrow> if c = CHR ''-'' then (True, cs) else if c = CHR ''+'' then (False, cs)
                  else (False, s)
      | [] \<Rightarrow> (False, s))"

definition int_of_str :: "string \<Rightarrow> py_error + int" where
  "int_of_str s =
     (let (neg, body) = split_sign (num_strip s);
          ds = filter is_ascii_digit body
      in if \<not> digitpart body \<or> length ds > int_max_str_digits then Inl ValueError
         else Inr (if neg then - int (digits_val ds) else int (digits_val ds)))"

subsection \<open>Rounding to binary64\<close>

text \<open>
  \<open>round_binary64 neg q\<close> is the float nearest to the magnitude \<open>q \<ge> 0\<close> with the sign
  \<open>neg\<close>: 53 significant bits, the least exponent \<open>-1074\<close>, ties to the even
  significand, and the infinity from \<open>2 ^ 1024\<close> on. \<^verbatim>\<open>float(n)\<close> of an integer raises
  \<^verbatim>\<open>OverflowError\<close> where the rounding would give an infinity.
\<close>

definition pow2 :: "int \<Rightarrow> rat" where
  "pow2 e = (if 0 \<le> e then 2 ^ nat e else 1 / 2 ^ nat (- e))"

definition pow10 :: "int \<Rightarrow> rat" where
  "pow10 e = (if 0 \<le> e then 10 ^ nat e else 1 / 10 ^ nat (- e))"

fun bit_length :: "nat \<Rightarrow> nat" where
  "bit_length n = (if n = 0 then 0 else Suc (bit_length (n div 2)))"

definition floor_log2 :: "rat \<Rightarrow> int" where
  "floor_log2 q =
     (let (a, b) = quotient_of q;
          d = int (bit_length (nat a)) - int (bit_length (nat b))
      in if pow2 d \<le> q then d else d - 1)"

definition floor_log10 :: "rat \<Rightarrow> int" where
  "floor_log10 q =
     (let (a, b) = quotient_of q;
          d = int (length (nat_digits (nat a))) - int (length (nat_digits (nat b)))
      in if pow10 d \<le> q then d else d - 1)"

definition round_half_even :: "rat \<Rightarrow> int" where
  "round_half_even q =
     (let f = \<lfloor>q\<rfloor>; d = q - of_int f
      in if d < 1 / 2 then f else if 1 / 2 < d then f + 1 else if even f then f else f + 1)"

definition round_binary64 :: "bool \<Rightarrow> rat \<Rightarrow> pyfloat" where
  "round_binary64 neg q =
     (if q = 0 then (if neg then NegZero else Finite 0)
      else let e = max (floor_log2 q - 52) (- 1074);
               m = round_half_even (q / pow2 e);
               r = of_int m * pow2 e
           in if pow2 1024 \<le> r then (if neg then NegInf else PosInf)
              else if r = 0 then (if neg then NegZero else Finite 0)
              else Finite (if neg then - r else r))"

definition float_of_int :: "int \<Rightarrow> py_error + pyfloat" where
  "float_of_int n =
     (case round_binary64 (n < 0) (of_int \<bar>n\<bar>) of
        PosInf \<Rightarrow> Inl OverflowError
      | NegInf \<Rightarrow> Inl OverflowError
      | f \<Rightarrow> Inr f)"

subsection \<open>\<^verbatim>\<open>float\<close> of a string\<close>

text \<open>
  \<^verbatim>\<open>float(s)\<close> strips white space, checks that every underscore stands between two
  digits and removes them, reads an optional sign and then \<^verbatim>\<open>inf\<close>, \<^verbatim>\<open>infinity\<close> or
  \<^verbatim>\<open>nan\<close> in any case, or a decimal numeral with an optional exponent. A numeral
  beyond the range of binary64 gives an infinity, not an exception.
\<close>

fun underscores_ok :: "char \<Rightarrow> string \<Rightarrow> bool" where
  "underscores_ok prev [] = (prev \<noteq> CHR ''_'')"
| "underscores_ok prev (c # cs) =
     ((if c = CHR ''_'' then is_ascii_digit prev
       else \<not> (prev = CHR ''_'' \<and> \<not> is_ascii_digit c)) \<and> underscores_ok c cs)"

definition parse_exponent :: "string \<Rightarrow> int option" where
  "parse_exponent s =
     (case s of
        [] \<Rightarrow> Some 0
      | c # cs \<Rightarrow>
          if c = CHR ''e'' \<or> c = CHR ''E'' then
            (let (neg, ds) = split_sign cs
             in if ds \<noteq> [] \<and> list_all is_ascii_digit ds
                then Some (if neg then - int (digits_val ds) else int (digits_val ds))
                else None)
          else None)"

definition parse_decimal :: "string \<Rightarrow> rat option" where
  "parse_decimal s =
     (let ip = takeWhile is_ascii_digit s; r1 = dropWhile is_ascii_digit s;
          (fp, r2) = (case r1 of
                        c # cs \<Rightarrow> if c = CHR ''.''
                                  then (takeWhile is_ascii_digit cs, dropWhile is_ascii_digit cs)
                                  else ([], r1)
                      | [] \<Rightarrow> ([], r1))
      in if ip = [] \<and> fp = [] then None
         else case parse_exponent r2 of
                None \<Rightarrow> None
              | Some ex \<Rightarrow>
                  Some (of_nat (digits_val (ip @ fp)) * pow10 (ex - int (length fp))))"

definition float_of_str :: "string \<Rightarrow> py_error + pyfloat" where
  "float_of_str s0 =
     (let s = num_strip s0
      in if \<not> underscores_ok (CHR 0x00) s then Inl ValueError
         else let (neg, body) = split_sign (filter (\<lambda>c. c \<noteq> CHR ''_'') s);
                  w = py_lower body
              in if w = ''inf'' \<or> w = ''infinity'' then Inr (if neg then NegInf else PosInf)
                 else if w = ''nan'' then Inr NaN
                 else case parse_decimal body of
                        None \<Rightarrow> Inl ValueError
                      | Some q \<Rightarrow> Inr (round_binary64 neg q))"

subsection \<open>\<^verbatim>\<open>str\<close> of a float\<close>

text \<open>
  \<^verbatim>\<open>str(x)\<close> of a finite float is the shortest digit string that reads back as \<open>x\<close>
  (among the shortest ones the nearest, ties to the even digit), written with an
  exponent when the decimal point would stand more than 16 places to the right or more
  than 3 zeros to the left of the digits.
\<close>

definition digits_candidate :: "rat \<Rightarrow> nat \<Rightarrow> (int \<times> int) option" where
  "digits_candidate q k =
     (let x = floor_log10 q - int k + 1;
          lo = \<lfloor>q / pow10 x\<rfloor>;
          ok_lo = (round_binary64 False (of_int lo * pow10 x) = Finite q);
          ok_hi = (round_binary64 False (of_int (lo + 1) * pow10 x) = Finite q);
          d_lo = q - of_int lo * pow10 x;
          d_hi = of_int (lo + 1) * pow10 x - q
      in if ok_lo \<and> ok_hi then
           Some (if d_lo < d_hi \<or> (d_lo = d_hi \<and> even lo) then lo else lo + 1, x)
         else if ok_lo then Some (lo, x)
         else if ok_hi then Some (lo + 1, x)
         else None)"

fun shortest_digits :: "rat \<Rightarrow> nat list \<Rightarrow> int \<times> int" where
  "shortest_digits q [] =
     (let x = floor_log10 q - 16 in (round_half_even (q / pow10 x), x))"
| "shortest_digits q (k # ks) =
     (case digits_candidate q k of Some mx \<Rightarrow> mx | None \<Rightarrow> shortest_digits q ks)"

fun strip_zeros :: "string \<Rightarrow> string" where
  "strip_zeros s = rev (dropWhile (\<lambda>c. c = CHR ''0'') (rev s))"

definition format_repr :: "string \<Rightarrow> int \<Rightarrow> string" where
  "format_repr ds decpt =
     (if decpt \<le> - 4 \<or> 16 < decpt then
        (let ex = decpt - 1; es = nat_digits (nat \<bar>ex\<bar>)
         in [hd ds] @ (if tl ds = [] then [] else CHR ''.'' # tl ds) @ ''e''
            @ (if ex < 0 then ''-'' else ''+'') @ (if length es < 2 then CHR ''0'' # es else es))
      else if decpt \<le> 0 then ''0.'' @ replicate (nat (- decpt)) (CHR ''0'') @ ds
      else if int (length ds) \<le> decpt
        then ds @ replicate (nat decpt - length ds) (CHR ''0'') @ ''.0''
      else take (nat decpt) ds @ ''.'' @ drop (nat decpt) ds)"

definition finite_repr :: "rat \<Rightarrow> string" where
  "finite_repr q =
     (if q = 0 then ''0.0''
      else let (m, x) = shortest_digits \<bar>q\<bar> [1 ..< 18];
               full = nat_digits (nat m);
               ds = strip_zeros full
           in (if q < 0 then ''-'' else '''') @ format_repr ds (int (length full) + x))"

definition float_repr :: "pyfloat \<Rightarrow> string" where
  "float_repr f =
     (case f of
        Finite q \<Rightarrow> finite_repr q
      | NegZero \<Rightarrow> ''-0.0''
      | PosInf \<Rightarrow> ''inf''
      | NegInf \<Rightarrow> ''-inf''
      | NaN \<Rightarrow> ''nan'')"

subsection \<open>The built-in functions on values\<close>

definition py_str :: "pyval \<Rightarrow> py_error + string" where
  "py_str v =
     (case v of
        PNone \<Rightarrow> Inr ''None''
      | PBool b \<Rightarrow> Inr (if b then ''True'' else ''False'')
      | PInt n \<Rightarrow> int_str n
      | PFloat f \<Rightarrow> Inr (float_repr f)
      | PStr s \<Rightarrow> Inr s)"

definition py_float :: "pyval \<Rightarrow> py_error + pyval" where
  "py_float v =
     (case v of
        PNone \<Rightarrow> Inl TypeError
      | PBool b \<Rightarrow> Inr (PFloat (Finite (if b then 1 else 0)))
      | PInt n \<Rightarrow> map_sum id PFloat (float_of_int n)
      | PFloat f \<Rightarrow> Inr (PFloat f)
      | PStr s \<Rightarrow> map_sum id PFloat (float_of_str s))"

definition int_of_float :: "pyfloat \<Rightarrow> py_error + int" where
  "int_of_float f =
     (case f of
        Finite q \<Rightarrow> Inr (if 0 \<le> q then \<lfloor>q\<rfloor> else - \<lfloor>- q\<rfloor>)
      | NegZero \<Rightarrow> Inr 0
      | PosInf \<Rightarrow> Inl OverflowError
      | NegInf \<Rightarrow> Inl OverflowError
      | NaN \<Rightarrow> Inl ValueError)"

definition py_int :: "pyval \<Rightarrow> py_error + pyval" where
  "py_int v =
     (case v of
        PNone \<Rightarrow> Inl TypeError
      | PBool b \<Rightarrow> Inr (PInt (if b then 1 else 0))
      | PInt n \<Rightarrow> Inr (PInt n)
      | PFloat f \<Rightarrow> map_sum id PInt (int_of_float f)
      | PStr s \<Rightarrow> map_sum id PInt (int_of_str s))"

text \<open>\<^verbatim>\<open>pandas.isna\<close> on a scalar: \<^verbatim>\<open>None\<close> and NaN are missing.\<close>

definition pd_isna :: "pyval \<Rightarrow> bool" where
  "pd_isna v = (v = PNone \<or> v = PFloat NaN)"

section \<open>\<^verbatim>\<open>datetime.fromisoformat\<close>\<close>

text \<open>
  The parser of CPython 3.11. It accepts calendar dates \<^verbatim>\<open>YYYY-MM-DD\<close> and \<^verbatim>\<open>YYYYMMDD\<close>
  and week dates \<^verbatim>\<open>YYYY-Www[-D]\<close> and \<^verbatim>\<open>YYYYWww[D]\<close>, then optionally any one separator
  character and a time \<^verbatim>\<open>HH[:MM[:SS[.f+]]]\<close> (with or without colons), and after the time
  \<^verbatim>\<open>Z\<close> or an offset \<^verbatim>\<open>+HH[:MM[:SS[.f+]]]\<close>. The fields are checked as the \<^verbatim>\<open>datetime\<close>
  constructor checks them, the offset must lie strictly between -24 and 24 hours, and
  every failure is a \<^verbatim>\<open>ValueError\<close>. An offset of zero whole seconds is UTC, whatever its
  fraction is. The field \<open>dt_utcoffset\<close> is the offset in microseconds.
\<close>

record datetime =
  dt_year :: int
  dt_month :: int
  dt_day :: int
  dt_hour :: int
  dt_minute :: int
  dt_second :: int
  dt_microsecond :: int
  dt_utcoffset :: "int option"

subsection \<open>The proleptic Gregorian calendar\<close>

definition is_leap :: "int \<Rightarrow> bool" where
  "is_leap y = (y mod 4 = 0 \<and> (y mod 100 \<noteq> 0 \<or> y mod 400 = 0))"

definition days_in_month_table :: "int list" where
  "days_in_month_table = [- 1, 31, 28, 31, 30, 31, 30, 31, 31, 30, 31, 30, 31]"

definition days_before_month_table :: "int list" where
  "days_before_month_table = [- 1, 0, 31, 59, 90, 120, 151, 181, 212, 243, 273, 304, 334]"

definition days_before_year :: "int \<Rightarrow> int" where
  "days_before_year year = (let y = year - 1 in y * 365 + y div 4 - y div 100 + y div 400)"

definition days_in_month :: "int \<Rightarrow> int \<Rightarrow> int" where
  "days_in_month year month =
     (if month = 2 \<and> is_leap year then 29 else days_in_month_table ! nat month)"

definition days_before_month :: "int \<Rightarrow> int \<Rightarrow> int" where
  "days_before_month year month =
     days_before_month_table ! nat month + (if 2 < month \<and> is_leap year then 1 else 0)"

definition ymd2ord :: "int \<Rightarrow> int \<Rightarrow> int \<Rightarrow> int" where
  "ymd2ord year month day = days_before_year year + days_before_month year month + day"

definition ord2ymd :: "int \<Rightarrow> int \<times> int \<times> int" where
  "ord2ymd n0 =
     (let n = n0 - 1;
          n400 = n div 146097; n = n mod 146097;
          n100 = n div 36524; n = n mod 36524;
          n4 = n div 1461; n = n mod 1461;
          n1 = n div 365; n = n mod 365;
          year = n400 * 400 + 1 + n100 * 100 + n4 * 4 + n1
      in if n1 = 4 \<or> n100 = 4 then (year - 1, 12, 31)
         else let leapyear = (n1 = 3 \<and> (n4 \<noteq> 24 \<or> n100 = 3));
                  month = (n + 50) div 32;
                  preceding = days_before_month_table ! nat month
                              + (if 2 < month \<and> leapyear then 1 else 0)
              in if n < preceding
                 then let month = month - 1;
                          preceding = preceding - (days_in_month_table ! nat month
                                        + (if month = 2 \<and> leapyear then 1 else 0))
                      in (year, month, n - preceding + 1)
                 else (year, month, n - preceding + 1))"

definition isoweek1monday :: "int \<Rightarrow> int" where
  "isoweek1monday year =
     (let firstday = ymd2ord year 1 1;
          firstweekday = (firstday + 6) mod 7;
          week1monday = firstday - firstweekday
      in if 3 < firstweekday then week1monday + 7 else week1monday)"

definition iso_to_ymd :: "int \<Rightarrow> int \<Rightarrow> int \<Rightarrow> (int \<times> int \<times> int) option" where
  "iso_to_ymd year week day =
     (let first_weekday = (ymd2ord year 1 1 + 6) mod 7;
          out_of_range = ((week \<le> 0 \<or> 53 \<le> week) \<and>
             \<not> (week = 53 \<and> (first_weekday = 3 \<or> (first_weekday = 2 \<and> is_leap year))))
      in if out_of_range then None
         else if day \<le> 0 \<or> 8 \<le> day then None
         else Some (ord2ymd (isoweek1monday year + (week - 1) * 7 + day - 1)))"

subsection \<open>Reading the string\<close>

text \<open>
  The parser reads the UTF-8 encoding of the string, byte by byte; the byte after the
  last one is the terminator 0. A code point from 128 to 255 is encoded in two bytes.
\<close>

definition utf8 :: "string \<Rightarrow> string" where
  "utf8 s = concat (map (\<lambda>c. let n = (of_char c :: nat)
                               in if n < 128 then [c]
                                  else [char_of (192 + n div 64), char_of (128 + n mod 64)]) s)"

definition byte_at :: "string \<Rightarrow> nat \<Rightarrow> char" where
  "byte_at s i = (if i < length s then s ! i else CHR 0x00)"

fun parse_digits :: "string \<Rightarrow> nat \<Rightarrow> nat \<Rightarrow> nat \<Rightarrow> (nat \<times> nat) option" where
  "parse_digits s p 0 var = Some (var, p)"
| "parse_digits s p (Suc n) var =
     (if is_ascii_digit (byte_at s p)
      then parse_digits s (Suc p) n (10 * var + digit_val (byte_at s p))
      else None)"

definition find_isoformat_datetime_separator :: "string \<Rightarrow> nat" where
  "find_isoformat_datetime_separator s =
     (let len = length s
      in if len = 7 then 7
         else if byte_at s 4 = CHR ''-'' then
           (if byte_at s 5 = CHR ''W'' then
              (if 8 < len \<and> byte_at s 8 = CHR ''-'' then
                 (if 10 < len \<and> is_ascii_digit (byte_at s 10) then 8 else 10)
               else 8)
            else 10)
         else if byte_at s 4 = CHR ''W'' then
           (let idx = 7 + length (takeWhile is_ascii_digit (drop 7 s))
            in if idx < 9 then idx else if even idx then 7 else 8)
         else 8)"

definition parse_isoformat_date :: "string \<Rightarrow> nat \<Rightarrow> (int \<times> int \<times> int) option" where
  "parse_isoformat_date s len =
     (case parse_digits s 0 4 0 of
        None \<Rightarrow> None
      | Some (year, cur0) \<Rightarrow>
          let uses_separator = (byte_at s cur0 = CHR ''-'');
              cur = (if uses_separator then Suc cur0 else cur0)
          in if byte_at s cur = CHR ''W'' then
               (case parse_digits s (Suc cur) 2 0 of
                  None \<Rightarrow> None
                | Some (iso_week, cur1) \<Rightarrow>
                    if byte_at s cur1 \<noteq> CHR 0x00 \<and> cur1 < len then
                      (if uses_separator \<and> byte_at s cur1 \<noteq> CHR ''-'' then None
                       else (case parse_digits s (if uses_separator then Suc cur1 else cur1) 1 0 of
                               None \<Rightarrow> None
                             | Some (iso_day, cur2) \<Rightarrow>
                                 iso_to_ymd (int year) (int iso_week) (int iso_day)))
                    else iso_to_ymd (int year) (int iso_week) 1)
             else
               (case parse_digits s cur 2 0 of
                  None \<Rightarrow> None
                | Some (month, cur1) \<Rightarrow>
                    if uses_separator \<and> byte_at s cur1 \<noteq> CHR ''-'' then None
                    else (case parse_digits s (if uses_separator then Suc cur1 else cur1) 2 0 of
                            None \<Rightarrow> None
                          | Some (day, cur2) \<Rightarrow> Some (int year, int month, int day))))"

text \<open>
  The loop over hour, minute and second. The result is the components read so far with
  either the return code of an early return (\<open>Inl\<close>: whether a byte other than the
  terminator follows) or the position where the fraction starts (\<open>Inr\<close>).
\<close>

fun parse_hms ::
  "string \<Rightarrow> nat \<Rightarrow> nat \<Rightarrow> bool \<Rightarrow> nat \<Rightarrow> nat list \<Rightarrow> (nat list \<times> (bool + nat)) option" where
  "parse_hms s p_end 0 has_separator p vals = Some (vals, Inr p)"
| "parse_hms s p_end (Suc k) has_separator p vals =
     (case parse_digits s p 2 0 of
        None \<Rightarrow> None
      | Some (v, p1) \<Rightarrow>
          let c = byte_at s p1;
              has_sep = (if vals = [] then c = CHR '':'' else has_separator)
          in if p_end \<le> Suc p1 then Some (vals @ [v], Inl (c \<noteq> CHR 0x00))
             else if has_sep \<and> c = CHR '':'' then parse_hms s p_end k has_sep (Suc p1) (vals @ [v])
             else if c = CHR ''.'' \<or> c = CHR '','' then Some (vals @ [v], Inr (Suc p1))
             else if \<not> has_sep then parse_hms s p_end k has_sep p1 (vals @ [v])
             else None)"

definition fraction_correction :: "nat list" where
  "fraction_correction = [100000, 10000, 1000, 100, 10]"

definition parse_hh_mm_ss_ff :: "string \<Rightarrow> nat \<Rightarrow> nat \<Rightarrow> (nat list \<times> bool) option" where
  "parse_hh_mm_ss_ff s p p_end =
     (case parse_hms s p_end 3 True p [] of
        None \<Rightarrow> None
      | Some (vals, Inl rv) \<Rightarrow> Some (vals @ replicate (4 - length vals) 0, rv)
      | Some (vals, Inr q) \<Rightarrow>
          let len_remains = p_end - q;
              to_parse = (if 6 \<le> len_remains then 6 else len_remains)
          in (case parse_digits s q to_parse 0 of
                None \<Rightarrow> None
              | Some (us, q1) \<Rightarrow>
                  let us = (if to_parse < 6 then us * fraction_correction ! (to_parse - 1) else us);
                      q2 = q1 + length (takeWhile is_ascii_digit (drop q1 s))
                  in Some (vals @ replicate (3 - length vals) 0 @ [us], byte_at s q2 \<noteq> CHR 0x00)))"

definition parse_isoformat_time ::
  "string \<Rightarrow> nat \<Rightarrow> (nat list \<times> int option) option" where
  "parse_isoformat_time s p =
     (let p_end = length s;
          is_tz = (\<lambda>c. c = CHR ''Z'' \<or> c = CHR ''+'' \<or> c = CHR ''-'');
          tzinfo_pos = (if p_end \<le> p then Suc p
                        else p + length (takeWhile (\<lambda>c. \<not> is_tz c) (drop p s)))
      in case parse_hh_mm_ss_ff s p tzinfo_pos of
           None \<Rightarrow> None
         | Some (comps, rv) \<Rightarrow>
             if tzinfo_pos = p_end then (if rv then None else Some (comps, None))
             else if byte_at s tzinfo_pos = CHR ''Z'' then
               (if byte_at s (Suc tzinfo_pos) \<noteq> CHR 0x00 then None else Some (comps, Some 0))
             else
               (case parse_hh_mm_ss_ff s (Suc tzinfo_pos) p_end of
                  None \<Rightarrow> None
                | Some (tz, rv2) \<Rightarrow>
                    if rv2 then None
                    else let tzsign = (if byte_at s tzinfo_pos = CHR ''-'' then - 1 else 1 :: int);
                             secs = int (tz ! 0) * 3600 + int (tz ! 1) * 60 + int (tz ! 2)
                         in Some (comps, if secs = 0 then Some 0
                                         else Some (tzsign * (secs * 1000000 + int (tz ! 3))))))"

subsection \<open>The checks of the constructor, and the parser\<close>

definition check_date_args :: "int \<Rightarrow> int \<Rightarrow> int \<Rightarrow> bool" where
  "check_date_args year month day =
     (1 \<le> year \<and> year \<le> 9999 \<and> 1 \<le> month \<and> month \<le> 12 \<and>
      1 \<le> day \<and> day \<le> days_in_month year month)"

definition check_time_args :: "int \<Rightarrow> int \<Rightarrow> int \<Rightarrow> int \<Rightarrow> bool" where
  "check_time_args h m s us =
     (0 \<le> h \<and> h \<le> 23 \<and> 0 \<le> m \<and> m \<le> 59 \<and> 0 \<le> s \<and> s \<le> 59 \<and> 0 \<le> us \<and> us \<le> 999999)"

definition fromisoformat :: "string \<Rightarrow> py_error + datetime" where
  "fromisoformat date_string =
     (let s = utf8 date_string; len = length s
      in if len < 7 then Inl ValueError
         else
           let separator_location = find_isoformat_datetime_separator s
           in case parse_isoformat_date s separator_location of
                None \<Rightarrow> Inl ValueError
              | Some (year, month, day) \<Rightarrow>
                  (case (if separator_location < len
                         then parse_isoformat_time s
                                (separator_location
                                 + (if of_char (byte_at s separator_location) < (128 :: nat) then 1 else 2))
                         else Some ([0, 0, 0, 0], None)) of
                     None \<Rightarrow> Inl ValueError
                   | Some (t, tz) \<Rightarrow>
                       if (case tz of None \<Rightarrow> False
                           | Some off \<Rightarrow> off \<le> - 86400000000 \<or> 86400000000 \<le> off)
                       then Inl ValueError
                       else if \<not> check_date_args year month day then Inl ValueError
                       else if \<not> check_time_args (int (t ! 0)) (int (t ! 1)) (int (t ! 2)) (int (t ! 3))
                       then Inl ValueError
                       else Inr \<lparr>dt_year = year, dt_month = month, dt_day = day,
                                 dt_hour = int (t ! 0), dt_minute = int (t ! 1),
                                 dt_second = int (t ! 2), dt_microsecond = int (t ! 3),
                                 dt_utcoffset = tz\<rparr>))"

section \<open>The field and date normalisers\<close>

text \<open>
  \<^verbatim>\<open>scripts/download_GBIF.py\<close>, lines 75 to 104.
  \<^verbatim>\<open>s.replace('Z', '+00:00')\<close> replaces every occurrence of the one character.
\<close>

definition str_replace :: "char \<Rightarrow> string \<Rightarrow> string \<Rightarrow> string" where
  "str_replace old new s = concat (map (\<lambda>c. if c = old then new else [c]) s)"

text \<open>
  \<^verbatim>\<open>
  def safe_convert(value, convert_func=None):
      if pd.isna(value) or value is None or str(value).lower() in ['nan', 'none', '']:
          return None
      try:
          return convert_func(value) if convert_func else value
      except (ValueError, TypeError):
          return None
  \<close>
  The result is \<open>Inl e\<close> when the call raises \<open>e\<close>. The test of the first line is outside
  the \<^verbatim>\<open>try\<close>, so an exception of \<^verbatim>\<open>str\<close> is raised to the caller; inside the \<^verbatim>\<open>try\<close>
  only \<^verbatim>\<open>ValueError\<close> and \<^verbatim>\<open>TypeError\<close> are caught.
\<close>

definition safe_convert ::
  "pyval \<Rightarrow> (pyval \<Rightarrow> py_error + pyval) option \<Rightarrow> py_error + pyval" where
  "safe_convert v convert_func =
     (if pd_isna v \<or> v = PNone then Inr PNone
      else case py_str v of
             Inl e \<Rightarrow> Inl e
           | Inr s \<Rightarrow>
               if py_lower s \<in> set [''nan'', ''none'', ''''] then Inr PNone
               else (case convert_func of
                       None \<Rightarrow> Inr v
                     | Some f \<Rightarrow>
                         (case f v of
                            Inr r \<Rightarrow> Inr r
                          | Inl e \<Rightarrow> (if e = ValueError \<or> e = TypeError then Inr PNone
                                     else Inl e))))"

text \<open>
  \<^verbatim>\<open>
  def safe_convert_date(date_value):
      if pd.isna(date_value) or date_value is None or str(date_value).lower() in ['nan', 'none', '']:
          return None
      date_str = str(date_value)
      if '/' in date_str:
          date_str = date_str.split('/')[0]
      if 'T' in date_str and len(date_str) > 19:
          date_str = date_str[:19]
      try:
          datetime.fromisoformat(date_str.replace('Z', '+00:00'))
          return date_str
      except (ValueError, TypeError):
          return None
  \<close>
\<close>

definition safe_convert_date :: "pyval \<Rightarrow> py_error + pyval" where
  "safe_convert_date date_value =
     (if pd_isna date_value \<or> date_value = PNone then Inr PNone
      else case py_str date_value of
             Inl e \<Rightarrow> Inl e
           | Inr s \<Rightarrow>
               if py_lower s \<in> set [''nan'', ''none'', ''''] then Inr PNone
               else
                 let date_str = s;
                     date_str = (if CHR ''/'' \<in> set date_str
                                 then takeWhile (\<lambda>c. c \<noteq> CHR ''/'') date_str else date_str);
                     date_str = (if CHR ''T'' \<in> set date_str \<and> 19 < length date_str
                                 then take 19 date_str else date_str)
                 in (case fromisoformat (str_replace (CHR ''Z'') ''+00:00'' date_str) of
                       Inr d \<Rightarrow> Inr (PStr date_str)
                     | Inl e \<Rightarrow> (if e = ValueError \<or> e = TypeError then Inr PNone else Inl e)))"

section \<open>The record validator\<close>

text \<open>
  \<^verbatim>\<open>scripts/download_GBIF.py\<close>, lines 107 to 125. A row of the table maps column names to
  values; \<^verbatim>\<open>row.get(key)\<close> is \<^verbatim>\<open>None\<close> for a column the table does not have. The fields
  of the dictionary are evaluated in the order they are written, and the first exception
  ends the loop.
\<close>

type_synonym raw_record = "string \<rightharpoonup> pyval"

definition row_get :: "raw_record \<Rightarrow> string \<Rightarrow> pyval" where
  "row_get row key = (case row key of None \<Rightarrow> PNone | Some v \<Rightarrow> v)"

record clean_record =
  scientific_name :: pyval
  species :: pyval
  genus :: pyval
  family :: pyval
  order_field :: pyval
  decimal_latitude :: pyval
  decimal_longitude :: pyval
  year :: pyval
  month :: pyval
  day :: pyval
  event_date :: pyval

definition bind_err :: "'e + 'a \<Rightarrow> ('a \<Rightarrow> 'e + 'b) \<Rightarrow> 'e + 'b" where
  "bind_err m f = (case m of Inl e \<Rightarrow> Inl e | Inr x \<Rightarrow> f x)"

definition make_record :: "raw_record \<Rightarrow> py_error + clean_record" where
  "make_record row =
     bind_err (safe_convert (row_get row ''scientificName'') None) (\<lambda>v1.
     bind_err (safe_convert (row_get row ''species'') None) (\<lambda>v2.
     bind_err (safe_convert (row_get row ''genus'') None) (\<lambda>v3.
     bind_err (safe_convert (row_get row ''family'') None) (\<lambda>v4.
     bind_err (safe_convert (row_get row ''order'') None) (\<lambda>v5.
     bind_err (safe_convert (row_get row ''decimalLatitude'') (Some py_float)) (\<lambda>v6.
     bind_err (safe_convert (row_get row ''decimalLongitude'') (Some py_float)) (\<lambda>v7.
     bind_err (safe_convert (row_get row ''year'') (Some py_int)) (\<lambda>v8.
     bind_err (safe_convert (row_get row ''month'') (Some py_int)) (\<lambda>v9.
     bind_err (safe_convert (row_get row ''day'') (Some py_int)) (\<lambda>v10.
     bind_err (safe_convert_date (row_get row ''eventDate'')) (\<lambda>v11.
       Inr \<lparr>scientific_name = v1, species = v2, genus = v3, family = v4, order_field = v5,
            decimal_latitude = v6, decimal_longitude = v7, year = v8, month = v9, day = v10,
            event_date = v11\<rparr>)))))))))))"

definition validate_row :: "clean_record list \<Rightarrow> raw_record \<Rightarrow> py_error + clean_record list" where
  "validate_row records row =
     (case make_record row of
        Inl e \<Rightarrow> Inl e
      | Inr record \<Rightarrow>
          Inr (if decimal_latitude record \<noteq> PNone \<and> decimal_longitude record \<noteq> PNone
               then records @ [record] else records))"

fun validate_rows :: "raw_record list \<Rightarrow> clean_record list \<Rightarrow> py_error + clean_record list" where
  "validate_rows [] records = Inr records"
| "validate_rows (row # rows) records =
     (case validate_row records row of
        Inl e \<Rightarrow> Inl e
      | Inr records' \<Rightarrow> validate_rows rows records')"

section \<open>The batch loader\<close>

text \<open>
  \<^verbatim>\<open>scripts/download_GBIF.py\<close>, lines 130 to 139.
  \<^verbatim>\<open>
  batch_size = 100
  total_inserted = 0
  for i in range(0, len(records), batch_size):
      batch = records[i:i + batch_size]
      response = supabase.table('gbif_fungal_observations').insert(batch).execute()
      total_inserted += len(batch)
      print(f"Inserted batch {i//batch_size + 1}, total: {total_inserted}/{len(records)}")
  print(f"Successfully saved {total_inserted} records to Supabase!")
  \<close>
  The store is outside the program: it is a state of any type \<open>'s\<close> and a function
  \<open>ins\<close> that, for a state and a batch, gives the next state or the exception that the
  client raises. The state of the loop holds the store, the insert requests issued so
  far (a failed one included), the counter, and the progress lines printed (batch
  number, counter, number of records).
\<close>

definition py_range :: "nat \<Rightarrow> nat \<Rightarrow> py_error + nat list" where
  "py_range stop step =
     (if step = 0 then Inl ValueError
      else Inr (map (\<lambda>k. k * step) [0 ..< (stop + step - 1) div step]))"

record ('s, 'r) loader_state =
  store :: 's
  requests :: "'r list list"
  total_inserted :: nat
  printed :: "(nat \<times> nat \<times> nat) list"

fun batch_loop ::
  "('s \<Rightarrow> 'r list \<Rightarrow> py_error + 's) \<Rightarrow> nat \<Rightarrow> 'r list \<Rightarrow> nat list \<Rightarrow>
   ('s, 'r) loader_state \<Rightarrow> ('s, 'r) loader_state \<times> py_error option" where
  "batch_loop ins bs records [] st = (st, None)"
| "batch_loop ins bs records (i # rest) st =
     (let batch = take bs (drop i records);
          st1 = st\<lparr>requests := requests st @ [batch]\<rparr>
      in case ins (store st) batch of
           Inl e \<Rightarrow> (st1, Some e)
         | Inr s' \<Rightarrow>
             batch_loop ins bs records rest
               (st1\<lparr>store := s',
                    total_inserted := total_inserted st + length batch,
                    printed := printed st @
                      [(i div bs + 1, total_inserted st + length batch, length records)]\<rparr>))"

definition batch_size :: nat where
  "batch_size = 100"

text \<open>
  The loop from the empty state. The second component is the outcome: the total printed
  at the end, or the exception that left the loop.
\<close>

definition insert_batches ::
  "('s \<Rightarrow> 'r list \<Rightarrow> py_error + 's) \<Rightarrow> 'r list \<Rightarrow> 's \<Rightarrow>
   ('s, 'r) loader_state \<times> (py_error + nat)" where
  "insert_batches ins records s0 =
     (let st0 = \<lparr>store = s0, requests = [], total_inserted = 0, printed = []\<rparr>
      in case py_range (length records) batch_size of
           Inl e \<Rightarrow> (st0, Inl e)
         | Inr idxs \<Rightarrow>
             (case batch_loop ins batch_size records idxs st0 of
                (st, Some e) \<Rightarrow> (st, Inl e)
              | (st, None) \<Rightarrow> (st, Inr (total_inserted st))))"

text \<open>
  The body of the \<^verbatim>\<open>try\<close> statement (lines 71 to 139): the validation loop, then the
  batch loop. An exception of either reaches the handler of line 141, which logs it;
  here it is the outcome \<open>Inl e\<close>.
\<close>

definition save_to_supabase ::
  "('s \<Rightarrow> clean_record list \<Rightarrow> py_error + 's) \<Rightarrow> raw_record list \<Rightarrow> 's \<Rightarrow>
   ('s, clean_record) loader_state \<times> (py_error + nat)" where
  "save_to_supabase ins rows s0 =
     (case validate_rows rows [] of
        Inl e \<Rightarrow> (\<lparr>store = s0, requests = [], total_inserted = 0, printed = []\<rparr>, Inl e)
      | Inr records \<Rightarrow> insert_batches ins records s0)"

section \<open>The coordinate filter of the HAEDAT script\<close>











section \<open>Properties\<close>

subsection \<open>Normalisers and validator\<close>

lemma lower_char_keep: "c \<in> set ''/.+-'' \<Longrightarrow> lower_char c = c"
  by (auto simp: lower_char_def Let_def)

lemma lower_token_char:
  assumes "lower_char c \<in> set ''naoe''"
  shows "of_char c < (128::nat) \<and> c \<noteq> CHR ''Z''"
proof (cases "(65 \<le> (of_char c::nat) \<and> (of_char c::nat) \<le> 90) \<or>
    (192 \<le> (of_char c::nat) \<and> (of_char c::nat) \<le> 222 \<and> (of_char c::nat) \<noteq> 215)")
  case True
  then have "lower_char c = char_of ((of_char c::nat) + 32)"
    by (simp add: lower_char_def Let_def)
  with assms have "((of_char c::nat) + 32) mod 256 \<in> {110, 97, 111, 101}"
    by (auto simp: char_of_eq_iff take_bit_eq_mod)
  with True have "(of_char c::nat) \<in> {78, 65, 79, 69}"
    by auto
  then show ?thesis
    by auto
next
  case False
  then have "lower_char c = c"
    by (auto simp: lower_char_def Let_def)
  with assms show ?thesis
    by auto
qed

lemma utf8_ascii: "\<forall>c \<in> set s. of_char c < (128::nat) \<Longrightarrow> utf8 s = s"
  by (induction s) (simp_all add: utf8_def)

lemma str_replace_absent: "old \<notin> set s \<Longrightarrow> str_replace old new s = s"
  by (induction s) (auto simp: str_replace_def)

lemma null_token_chars:
  assumes "py_lower s \<in> set [''nan'', ''none'', '''']"
  shows "length s \<le> 4 \<and> (\<forall>c \<in> set s. of_char c < (128::nat) \<and> c \<noteq> CHR ''Z'')"
proof -
  have len: "length s = length (py_lower s)"
    by (simp add: py_lower_def)
  have "\<forall>c \<in> set s. lower_char c \<in> set ''naoe''"
  proof
    fix c assume "c \<in> set s"
    then have "lower_char c \<in> set (py_lower s)"
      by (simp add: py_lower_def)
    with assms show "lower_char c \<in> set ''naoe''"
      by auto
  qed
  then have "\<forall>c \<in> set s. of_char c < (128::nat) \<and> c \<noteq> CHR ''Z''"
    using lower_token_char by blast
  moreover from assms len have "length s \<le> 4"
    by auto
  ultimately show ?thesis
    by simp
qed

lemma fromisoformat_short: "length (utf8 s) < 7 \<Longrightarrow> fromisoformat s = Inl ValueError"
  by (simp add: fromisoformat_def Let_def)

lemma null_token_invalid:
  assumes "py_lower s \<in> set [''nan'', ''none'', '''']"
  shows "fromisoformat (str_replace (CHR ''Z'') ''+00:00'' s) = Inl ValueError"
proof -
  from null_token_chars [OF assms]
  have len: "length s \<le> 4" and ascii: "\<forall>c \<in> set s. of_char c < (128::nat)"
    and noz: "CHR ''Z'' \<notin> set s"
    by auto
  have "length (utf8 (str_replace (CHR ''Z'') ''+00:00'' s)) < 7"
    using len by (simp add: str_replace_absent [OF noz] utf8_ascii [OF ascii])
  then show ?thesis
    by (rule fromisoformat_short)
qed

lemma slash_not_token:
  assumes "CHR ''/'' \<in> set s"
  shows "py_lower s \<notin> set [''nan'', ''none'', '''']"
proof -
  from assms have "lower_char (CHR ''/'') \<in> set (py_lower s)"
    unfolding py_lower_def by (simp only: set_map image_eqI)
  then have "CHR ''/'' \<in> set (py_lower s)"
    by (simp add: lower_char_keep)
  then show ?thesis
    by auto
qed

lemma marked_not_token:
  assumes "c \<in> set s" and "c \<in> set ''/.+-''"
  shows "py_lower s \<notin> set [''nan'', ''none'', '''']"
proof -
  from assms(1) have "lower_char c \<in> set (py_lower s)"
    unfolding py_lower_def by (simp only: set_map image_eqI)
  with assms(2) have "c \<in> set (py_lower s)"
    by (simp only: lower_char_keep)
  with assms(2) show ?thesis
    by auto
qed

lemma format_repr_mark: "\<exists>c \<in> set (format_repr ds decpt). c \<in> set ''/.+-''"
  by (auto simp: format_repr_def Let_def)

lemma finite_repr_mark: "\<exists>c \<in> set (finite_repr q). c \<in> set ''/.+-''"
proof (cases "q = 0")
  case True
  then show ?thesis by (simp add: finite_repr_def)
next
  case False
  obtain m x where mx: "shortest_digits \<bar>q\<bar> [1 ..< 18] = (m, x)"
    by (cases "shortest_digits \<bar>q\<bar> [1 ..< 18]")
  obtain c where "c \<in> set (format_repr (strip_zeros (nat_digits (nat m)))
      (int (length (nat_digits (nat m))) + x))" and "c \<in> set ''/.+-''"
    using format_repr_mark by blast
  with False mx show ?thesis
    unfolding finite_repr_def Let_def by (auto simp del: strip_zeros.simps nat_digits.simps)
qed

lemma finite_repr_not_token: "py_lower (finite_repr q) \<notin> set [''nan'', ''none'', '''']"
  using finite_repr_mark marked_not_token by blast

lemma py_lower_inf: "py_lower ''inf'' = ''inf''"
  by (simp add: py_lower_def lower_char_def)

lemma safe_convert_finite:
  "safe_convert (PFloat (Finite q)) (Some py_float) = Inr (PFloat (Finite q))"
  using finite_repr_not_token [of q]
  by (simp add: safe_convert_def pd_isna_def py_str_def float_repr_def py_float_def)

lemma safe_convert_missing: "safe_convert PNone convert_func = Inr PNone"
  by (simp add: safe_convert_def)

lemma safe_convert_date_missing: "safe_convert_date PNone = Inr PNone"
  by (simp add: safe_convert_date_def)

lemma py_float_result: "py_float v = Inr r \<Longrightarrow> \<exists>f. r = PFloat f"
  by (auto simp: py_float_def map_sum_def split: pyval.splits sum.splits)

lemma safe_convert_float_result:
  "safe_convert v (Some py_float) = Inr r \<Longrightarrow> r = PNone \<or> (\<exists>f. r = PFloat f)"
  by (auto simp: safe_convert_def dest: py_float_result split: if_splits sum.splits)

lemma float_of_str_raises: "float_of_str s = Inl e \<Longrightarrow> e = ValueError"
  by (auto simp: float_of_str_def Let_def split: if_splits prod.splits option.splits)

lemma safe_convert_str_float: "\<exists>r. safe_convert (PStr s) (Some py_float) = Inr r"
proof (cases "float_of_str s")
  case (Inl e)
  then show ?thesis
    using float_of_str_raises [OF Inl]
    by (simp add: safe_convert_def pd_isna_def py_str_def py_float_def)
next
  case (Inr f)
  then show ?thesis
    by (simp add: safe_convert_def pd_isna_def py_str_def py_float_def)
qed

lemma make_record_fields:
  assumes "make_record row = Inr record"
  shows "safe_convert (row_get row ''decimalLatitude'') (Some py_float) = Inr (decimal_latitude record)"
    and "safe_convert (row_get row ''decimalLongitude'') (Some py_float) = Inr (decimal_longitude record)"
  using assms by (auto simp: make_record_def bind_err_def split: sum.splits)

text \<open>
  Claim C3: a value that is missing (\<^verbatim>\<open>None\<close> or NaN), or whose string form is the empty
  string, \<^verbatim>\<open>nan\<close> or \<^verbatim>\<open>none\<close> in any case, is normalised to \<^verbatim>\<open>None\<close> whatever the
  conversion is: none, \<^verbatim>\<open>float\<close>, \<^verbatim>\<open>int\<close> or any other function.
\<close>

theorem null_input_gives_none:
  "v = PNone \<or> v = PFloat NaN \<or>
     (\<exists>s. py_str v = Inr s \<and> py_lower s \<in> set [''nan'', ''none'', '''']) \<Longrightarrow>
   safe_convert v convert_func = Inr PNone"
  by (auto simp: safe_convert_def pd_isna_def)

theorem null_input_gives_none_witness:
  "safe_convert (PStr ''NaN'') None = Inr PNone \<and>
   safe_convert (PStr ''NaN'') (Some py_float) = Inr PNone \<and>
   safe_convert (PStr ''None'') (Some py_int) = Inr PNone \<and>
   safe_convert (PStr '''') (Some py_int) = Inr PNone \<and>
   safe_convert (PFloat NaN) (Some py_int) = Inr PNone"
proof -
  have a: "py_str (PStr ''NaN'') = Inr ''NaN'' \<and> py_lower ''NaN'' \<in> set [''nan'', ''none'', '''']"
    by (simp add: py_str_def py_lower_def lower_char_def char_of_eq_iff take_bit_eq_mod)
  have b: "py_str (PStr ''None'') = Inr ''None'' \<and> py_lower ''None'' \<in> set [''nan'', ''none'', '''']"
    by (simp add: py_str_def py_lower_def lower_char_def char_of_eq_iff take_bit_eq_mod)
  have c: "py_str (PStr '''') = Inr '''' \<and> py_lower '''' \<in> set [''nan'', ''none'', '''']"
    by (simp add: py_str_def py_lower_def)
  show ?thesis
    using null_input_gives_none [of "PStr ''NaN''" None]
      null_input_gives_none [of "PStr ''NaN''" "Some py_float"]
      null_input_gives_none [of "PStr ''None''" "Some py_int"]
      null_input_gives_none [of "PStr ''''" "Some py_int"]
      null_input_gives_none [of "PFloat NaN" "Some py_int"] a b c
    by blast
qed

text \<open>
  Claim C5 says that the field normaliser never raises. It does: for the float infinity
  and the conversion \<^verbatim>\<open>int\<close>, \<^verbatim>\<open>int(float('inf'))\<close> raises \<^verbatim>\<open>OverflowError\<close>, which the
  handler for \<^verbatim>\<open>ValueError\<close> and \<^verbatim>\<open>TypeError\<close> does not catch.
\<close>

theorem safe_convert_inf_int_raises:
  "safe_convert (PFloat PosInf) (Some py_int) = Inl OverflowError"
  by (simp add: safe_convert_def pd_isna_def py_str_def float_repr_def py_lower_inf
      py_int_def int_of_float_def)

lemma fromisoformat_raises: "fromisoformat s = Inl e \<Longrightarrow> e = ValueError"
  by (auto simp: fromisoformat_def Let_def split: if_splits option.splits prod.splits)

lemma token_short: "py_lower s \<in> set [''nan'', ''none'', ''''] \<Longrightarrow> length s \<le> 4"
  using null_token_chars by blast

text \<open>The normaliser on a string, once the range and the length rules have been applied.\<close>

lemma safe_convert_date_str:
  "safe_convert_date (PStr s) =
     (if py_lower s \<in> set [''nan'', ''none'', ''''] then Inr PNone
      else let d1 = (if CHR ''/'' \<in> set s then takeWhile (\<lambda>c. c \<noteq> CHR ''/'') s else s);
               d2 = (if CHR ''T'' \<in> set d1 \<and> 19 < length d1 then take 19 d1 else d1)
           in (case fromisoformat (str_replace (CHR ''Z'') ''+00:00'' d2) of
                 Inr d \<Rightarrow> Inr (PStr d2)
               | Inl e \<Rightarrow> Inr PNone))"
  by (auto simp: safe_convert_date_def pd_isna_def py_str_def Let_def
      dest: fromisoformat_raises split: sum.splits)

lemma safe_convert_date_result:
  assumes "safe_convert_date v = Inr r" and "r \<noteq> PNone"
  shows "\<exists>s d2. py_str v = Inr s \<and> r = PStr d2 \<and>
           d2 = (let d1 = (if CHR ''/'' \<in> set s then takeWhile (\<lambda>c. c \<noteq> CHR ''/'') s else s)
                 in if CHR ''T'' \<in> set d1 \<and> 19 < length d1 then take 19 d1 else d1) \<and>
           (\<exists>d. fromisoformat (str_replace (CHR ''Z'') ''+00:00'' d2) = Inr d)"
  using assms
  by (auto simp: safe_convert_date_def Let_def split: if_splits sum.splits)

lemma normal_form_fixed:
  assumes "d2 = (let d1 = (if CHR ''/'' \<in> set s then takeWhile (\<lambda>c. c \<noteq> CHR ''/'') s else s)
                 in if CHR ''T'' \<in> set d1 \<and> 19 < length d1 then take 19 d1 else d1)"
  shows "CHR ''/'' \<notin> set d2 \<and> \<not> (CHR ''T'' \<in> set d2 \<and> 19 < length d2)"
proof -
  define d1 where "d1 = (if CHR ''/'' \<in> set s then takeWhile (\<lambda>c. c \<noteq> CHR ''/'') s else s)"
  have no_slash: "CHR ''/'' \<notin> set d1"
    unfolding d1_def by (auto dest: set_takeWhileD)
  have d2: "d2 = (if CHR ''T'' \<in> set d1 \<and> 19 < length d1 then take 19 d1 else d1)"
    using assms by (simp add: d1_def Let_def)
  show ?thesis
  proof (cases "CHR ''T'' \<in> set d1 \<and> 19 < length d1")
    case True
    with d2 have "d2 = take 19 d1" by simp
    with True no_slash show ?thesis
      by (auto dest: in_set_takeD)
  next
    case False
    with d2 no_slash show ?thesis by auto
  qed
qed

lemma date_eval_plain:
  "fromisoformat ''2024-06-01T12:00:00'' =
     Inr \<lparr>dt_year = 2024, dt_month = 6, dt_day = 1, dt_hour = 12, dt_minute = 0, dt_second = 0,
          dt_microsecond = 0, dt_utcoffset = None\<rparr>"
  by code_simp

lemma date_eval_day:
  "fromisoformat ''2024-06-01'' =
     Inr \<lparr>dt_year = 2024, dt_month = 6, dt_day = 1, dt_hour = 0, dt_minute = 0, dt_second = 0,
          dt_microsecond = 0, dt_utcoffset = None\<rparr>"
  by code_simp

lemma lower_eval:
  "py_lower ''2024-06-01T12:00:00.123456Z'' = ''2024-06-01t12:00:00.123456z''"
  "py_lower ''2024-06-01T12:00:00'' = ''2024-06-01t12:00:00''"
  "py_lower ''2024-06-01'' = ''2024-06-01''"
  "py_lower ''abc'' = ''abc''"
  by (simp_all add: py_lower_def lower_char_def char_of_eq_iff take_bit_eq_mod)

lemma replace_eval:
  "str_replace (CHR ''Z'') ''+00:00'' ''2024-06-01T12:00:00'' = ''2024-06-01T12:00:00''"
  "str_replace (CHR ''Z'') ''+00:00'' ''2024-06-01'' = ''2024-06-01''"
  by (simp_all add: str_replace_def)

text \<open>
  Claim C4 says that the over-long timestamp \<^verbatim>\<open>2024-06-01T12:00:00.123456Z\<close> is cut to its
  first 19 characters and that the cut string is invalid and gives \<^verbatim>\<open>None\<close>. The first
  19 characters are \<^verbatim>\<open>2024-06-01T12:00:00\<close>, which the parser accepts, and that string is
  the result.
\<close>

theorem overlong_timestamp_counterexample:
  "take 19 ''2024-06-01T12:00:00.123456Z'' = ''2024-06-01T12:00:00'' \<and>
   fromisoformat (str_replace (CHR ''Z'') ''+00:00'' ''2024-06-01T12:00:00'') =
     Inr \<lparr>dt_year = 2024, dt_month = 6, dt_day = 1, dt_hour = 12, dt_minute = 0, dt_second = 0,
          dt_microsecond = 0, dt_utcoffset = None\<rparr> \<and>
   safe_convert_date (PStr ''2024-06-01T12:00:00.123456Z'') = Inr (PStr ''2024-06-01T12:00:00'')"
  by (simp add: safe_convert_date_str lower_eval replace_eval date_eval_plain)

text \<open>
  Claim C4 as amended: a string with a \<^verbatim>\<open>T\<close>, no \<^verbatim>\<open>/\<close> and more than 19 characters is cut
  to its first 19 characters before validation; the result is the cut string when the
  parser accepts it and \<^verbatim>\<open>None\<close> otherwise. For \<^verbatim>\<open>2024-06-01T12:00:00.123456Z\<close> the cut
  string \<^verbatim>\<open>2024-06-01T12:00:00\<close> is valid and is returned.
\<close>

theorem overlong_timestamp_truncated:
  assumes "CHR ''T'' \<in> set s" and "19 < length s" and "CHR ''/'' \<notin> set s"
  shows "safe_convert_date (PStr s) =
           (case fromisoformat (str_replace (CHR ''Z'') ''+00:00'' (take 19 s)) of
              Inr d \<Rightarrow> Inr (PStr (take 19 s))
            | Inl e \<Rightarrow> Inr PNone)"
proof -
  have "py_lower s \<notin> set [''nan'', ''none'', '''']"
    using token_short [of s] assms(2) by auto
  with assms show ?thesis
    by (simp add: safe_convert_date_str Let_def)
qed

theorem overlong_timestamp_truncated_witness:
  "CHR ''T'' \<in> set ''2024-06-01T12:00:00.123456Z'' \<and>
   19 < length ''2024-06-01T12:00:00.123456Z'' \<and>
   CHR ''/'' \<notin> set ''2024-06-01T12:00:00.123456Z'' \<and>
   safe_convert_date (PStr ''2024-06-01T12:00:00.123456Z'') = Inr (PStr ''2024-06-01T12:00:00'')"
  using overlong_timestamp_truncated [of "''2024-06-01T12:00:00.123456Z''"]
  by (simp add: replace_eval date_eval_plain)

text \<open>
  Claim C6: on a string with a \<^verbatim>\<open>/\<close> the date normaliser gives what it gives on the part
  before the first \<^verbatim>\<open>/\<close>; the range \<^verbatim>\<open>2024-06-01/2024-06-30\<close> gives \<^verbatim>\<open>2024-06-01\<close>.
\<close>

theorem range_takes_first_date:
  assumes "CHR ''/'' \<in> set s"
  shows "safe_convert_date (PStr s) =
           safe_convert_date (PStr (takeWhile (\<lambda>c. c \<noteq> CHR ''/'') s))"
proof -
  define d where "d = takeWhile (\<lambda>c. c \<noteq> CHR ''/'') s"
  have not_token: "py_lower s \<notin> set [''nan'', ''none'', '''']"
    using assms by (rule slash_not_token)
  have no_slash: "CHR ''/'' \<notin> set d"
    unfolding d_def by (auto dest: set_takeWhileD)
  show ?thesis
  proof (cases "py_lower d \<in> set [''nan'', ''none'', '''']")
    case True
    then have "length d \<le> 4"
      by (rule token_short)
    moreover have "fromisoformat (str_replace (CHR ''Z'') ''+00:00'' d) = Inl ValueError"
      using True by (rule null_token_invalid)
    ultimately have "safe_convert_date (PStr s) = Inr PNone"
      using assms not_token by (simp add: safe_convert_date_str d_def [symmetric])
    moreover have "safe_convert_date (PStr d) = Inr PNone"
      using True by (simp add: safe_convert_date_str)
    ultimately show ?thesis
      by (simp add: d_def)
  next
    case False
    with assms not_token no_slash show ?thesis
      by (simp add: safe_convert_date_str d_def [symmetric])
  qed
qed

theorem range_takes_first_date_witness:
  "CHR ''/'' \<in> set ''2024-06-01/2024-06-30'' \<and>
   takeWhile (\<lambda>c. c \<noteq> CHR ''/'') ''2024-06-01/2024-06-30'' = ''2024-06-01'' \<and>
   safe_convert_date (PStr ''2024-06-01/2024-06-30'') = Inr (PStr ''2024-06-01'')"
  using range_takes_first_date [of "''2024-06-01/2024-06-30''"]
  by (simp add: safe_convert_date_str lower_eval replace_eval date_eval_day)

text \<open>
  Claim C7: the date normaliser is idempotent: when it returns a result \<open>r\<close> other than
  \<^verbatim>\<open>None\<close>, it returns \<open>r\<close> on \<open>r\<close>; \<^verbatim>\<open>2024-06-01T12:00:00\<close> is mapped to itself.
\<close>

theorem safe_convert_date_idempotent:
  assumes "safe_convert_date v = Inr r" and "r \<noteq> PNone"
  shows "safe_convert_date r = Inr r"
proof -
  from safe_convert_date_result [OF assms] obtain s d2 d where
    r: "r = PStr d2" and
    d2: "d2 = (let d1 = (if CHR ''/'' \<in> set s then takeWhile (\<lambda>c. c \<noteq> CHR ''/'') s else s)
               in if CHR ''T'' \<in> set d1 \<and> 19 < length d1 then take 19 d1 else d1)" and
    ok: "fromisoformat (str_replace (CHR ''Z'') ''+00:00'' d2) = Inr d"
    by blast
  have fixed: "CHR ''/'' \<notin> set d2 \<and> \<not> (CHR ''T'' \<in> set d2 \<and> 19 < length d2)"
    using d2 by (rule normal_form_fixed)
  have "py_lower d2 \<notin> set [''nan'', ''none'', '''']"
    using null_token_invalid [of d2] ok by auto
  with fixed ok show ?thesis
    unfolding r by (auto simp: safe_convert_date_str Let_def)
qed

theorem safe_convert_date_idempotent_witness:
  "safe_convert_date (PStr ''2024-06-01T12:00:00'') = Inr (PStr ''2024-06-01T12:00:00'') \<and>
   PStr ''2024-06-01T12:00:00'' \<noteq> PNone \<and>
   safe_convert_date (PStr ''2024-06-01T12:00:00.123456Z'') = Inr (PStr ''2024-06-01T12:00:00'')"
proof -
  have a: "safe_convert_date (PStr ''2024-06-01T12:00:00.123456Z'') = Inr (PStr ''2024-06-01T12:00:00'')"
    by (simp add: safe_convert_date_str lower_eval replace_eval date_eval_plain)
  from safe_convert_date_idempotent [OF a] a show ?thesis
    by simp
qed

text \<open>
  Claim C10: a result of the date normaliser other than \<^verbatim>\<open>None\<close> is a string that
  \<^verbatim>\<open>datetime.fromisoformat\<close> accepts after every \<^verbatim>\<open>Z\<close> is replaced by \<^verbatim>\<open>+00:00\<close>.
\<close>

theorem result_is_iso_parseable:
  assumes "safe_convert_date v = Inr r" and "r \<noteq> PNone"
  shows "\<exists>s d. r = PStr s \<and> fromisoformat (str_replace (CHR ''Z'') ''+00:00'' s) = Inr d"
  using safe_convert_date_result [OF assms] by blast

theorem result_is_iso_parseable_witness:
  "safe_convert_date (PStr ''2024-06-01'') = Inr (PStr ''2024-06-01'') \<and>
   PStr ''2024-06-01'' \<noteq> PNone \<and>
   (\<exists>d. fromisoformat (str_replace (CHR ''Z'') ''+00:00'' ''2024-06-01'') = Inr d)"
proof -
  have a: "safe_convert_date (PStr ''2024-06-01'') = Inr (PStr ''2024-06-01'')"
    by (simp add: safe_convert_date_str lower_eval replace_eval date_eval_day)
  from result_is_iso_parseable [OF a] a show ?thesis
    by simp
qed

lemma validate_row_made:
  "make_record row = Inr record \<Longrightarrow>
   validate_row records row =
     Inr (if decimal_latitude record \<noteq> PNone \<and> decimal_longitude record \<noteq> PNone
          then records @ [record] else records)"
  by (simp add: validate_row_def)

lemma float_of_str_abc: "float_of_str ''abc'' = Inl ValueError"
  by code_simp

lemma safe_convert_abc: "safe_convert (PStr ''abc'') (Some py_float) = Inr PNone"
  by (simp add: safe_convert_def pd_isna_def py_str_def lower_eval py_float_def float_of_str_abc)

lemma validate_rows_output:
  "validate_rows rows acc = Inr out \<Longrightarrow>
   \<exists>recs. map make_record rows = map Inr recs \<and>
     out = acc @ filter (\<lambda>r. decimal_latitude r \<noteq> PNone \<and> decimal_longitude r \<noteq> PNone) recs"
proof (induction rows arbitrary: acc)
  case Nil
  then show ?case by simp
next
  case (Cons row rows)
  from Cons.prems obtain rcd where made: "make_record row = Inr rcd"
    by (cases "make_record row") (simp_all add: validate_row_def)
  let ?acc = "if decimal_latitude rcd \<noteq> PNone \<and> decimal_longitude rcd \<noteq> PNone
              then acc @ [rcd] else acc"
  from Cons.prems made have "validate_rows rows ?acc = Inr out"
    by (simp add: validate_row_def)
  from Cons.IH [OF this] obtain recs where
    recs: "map make_record rows = map Inr recs" and
    out: "out = ?acc @ filter (\<lambda>r. decimal_latitude r \<noteq> PNone \<and> decimal_longitude r \<noteq> PNone) recs"
    by blast
  have "map make_record (row # rows) = map Inr (rcd # recs)"
    using made recs by simp
  moreover
  have "out = acc @ filter (\<lambda>r. decimal_latitude r \<noteq> PNone \<and> decimal_longitude r \<noteq> PNone)
      (rcd # recs)"
    using out by simp
  ultimately show ?case
    by blast
qed

lemma validated_row_made:
  assumes "validate_rows rows [] = Inr out" and "row \<in> set rows"
  shows "\<exists>record. make_record row = Inr record \<and>
           (record \<in> set out \<longleftrightarrow>
              decimal_latitude record \<noteq> PNone \<and> decimal_longitude record \<noteq> PNone)"
proof -
  from validate_rows_output [OF assms(1)] obtain recs where
    recs: "map make_record rows = map Inr recs" and
    out: "out = filter (\<lambda>r. decimal_latitude r \<noteq> PNone \<and> decimal_longitude r \<noteq> PNone) recs"
    by auto
  from assms(2) have "make_record row \<in> set (map make_record rows)"
    by simp
  with recs obtain rcd where "rcd \<in> set recs" and "make_record row = Inr rcd"
    by auto
  with out show ?thesis
    by auto
qed

text \<open>
  A validation loop that runs to its end: every row has its clean record, whose
  latitude and longitude are what the field normaliser gives for the row's values with
  the conversion \<^verbatim>\<open>float\<close>; the record is in the output if and only if both are floats,
  and the step of the loop for the row appends the record in that case and leaves the
  list as it is otherwise. The row with latitude \<^verbatim>\<open>abc\<close> and longitude \<^verbatim>\<open>10.0\<close> is dropped
  with the list unchanged.
\<close>

lemma retained_iff_coordinates:
  assumes "validate_rows rows [] = Inr out" and "row \<in> set rows"
  shows "\<exists>record. make_record row = Inr record \<and>
           safe_convert (row_get row ''decimalLatitude'') (Some py_float) =
             Inr (decimal_latitude record) \<and>
           safe_convert (row_get row ''decimalLongitude'') (Some py_float) =
             Inr (decimal_longitude record) \<and>
           (record \<in> set out \<longleftrightarrow>
              (\<exists>a. decimal_latitude record = PFloat a) \<and>
              (\<exists>b. decimal_longitude record = PFloat b)) \<and>
           (\<forall>records. validate_row records row =
              Inr (if (\<exists>a. decimal_latitude record = PFloat a) \<and>
                      (\<exists>b. decimal_longitude record = PFloat b)
                   then records @ [record] else records))"
proof -
  from validated_row_made [OF assms] obtain rcd where
    made: "make_record row = Inr rcd" and
    mem: "rcd \<in> set out \<longleftrightarrow>
            decimal_latitude rcd \<noteq> PNone \<and> decimal_longitude rcd \<noteq> PNone"
    by blast
  note fields = make_record_fields [OF made]
  have lat: "decimal_latitude rcd \<noteq> PNone \<longleftrightarrow> (\<exists>a. decimal_latitude rcd = PFloat a)"
    using safe_convert_float_result [OF fields(1)] by auto
  have lon: "decimal_longitude rcd \<noteq> PNone \<longleftrightarrow> (\<exists>b. decimal_longitude rcd = PFloat b)"
    using safe_convert_float_result [OF fields(2)] by auto
  have step: "\<forall>records. validate_row records row =
      Inr (if (\<exists>a. decimal_latitude rcd = PFloat a) \<and> (\<exists>b. decimal_longitude rcd = PFloat b)
           then records @ [rcd] else records)"
    using validate_row_made [OF made] lat lon by simp
  from made fields mem lat lon step show ?thesis
    by blast
qed

lemma retained_iff_coordinates_example:
  "validate_rows
     [[''decimalLatitude'' \<mapsto> PStr ''abc'', ''decimalLongitude'' \<mapsto> PStr ''10.0''],
      [''decimalLatitude'' \<mapsto> PFloat (Finite 52), ''decimalLongitude'' \<mapsto> PFloat (Finite 5)]] [] =
     Inr [\<lparr>scientific_name = PNone, species = PNone, genus = PNone, family = PNone,
            order_field = PNone, decimal_latitude = PFloat (Finite 52),
            decimal_longitude = PFloat (Finite 5),
            year = PNone, month = PNone, day = PNone, event_date = PNone\<rparr>] \<and>
   (\<forall>records.
      validate_row records
        [''decimalLatitude'' \<mapsto> PStr ''abc'', ''decimalLongitude'' \<mapsto> PStr ''10.0''] =
      Inr records)"
proof -
  obtain lon where lon: "safe_convert (PStr ''10.0'') (Some py_float) = Inr lon"
    using safe_convert_str_float by blast
  let ?abc = "[''decimalLatitude'' \<mapsto> PStr ''abc'', ''decimalLongitude'' \<mapsto> PStr ''10.0'']"
  let ?ok = "[''decimalLatitude'' \<mapsto> PFloat (Finite 52), ''decimalLongitude'' \<mapsto> PFloat (Finite 5)]"
  let ?kept = "\<lparr>scientific_name = PNone, species = PNone, genus = PNone, family = PNone,
            order_field = PNone, decimal_latitude = PFloat (Finite 52),
            decimal_longitude = PFloat (Finite 5),
            year = PNone, month = PNone, day = PNone, event_date = PNone\<rparr>"
  have made_abc: "make_record ?abc =
      Inr \<lparr>scientific_name = PNone, species = PNone, genus = PNone, family = PNone,
           order_field = PNone, decimal_latitude = PNone, decimal_longitude = lon,
           year = PNone, month = PNone, day = PNone, event_date = PNone\<rparr>"
    by (simp add: make_record_def bind_err_def row_get_def safe_convert_missing
        safe_convert_date_missing safe_convert_abc lon)
  have made_ok: "make_record ?ok = Inr ?kept"
    by (simp add: make_record_def bind_err_def row_get_def safe_convert_missing
        safe_convert_date_missing safe_convert_finite)
  have run: "validate_rows [?abc, ?ok] [] = Inr [?kept]"
    by (simp add: validate_row_def made_abc made_ok)
  have "?abc \<in> set [?abc, ?ok]"
    by simp
  from retained_iff_coordinates [OF run this] made_abc
  have "\<forall>records. validate_row records ?abc = Inr records"
    by auto
  with run show ?thesis
    by simp
qed

text \<open>Rows with finite float coordinates, and such a row whose year is the float infinity.\<close>

lemma plain_row:
  "make_record [''decimalLatitude'' \<mapsto> PFloat (Finite x), ''decimalLongitude'' \<mapsto> PFloat (Finite y)] =
     Inr \<lparr>scientific_name = PNone, species = PNone, genus = PNone, family = PNone,
          order_field = PNone, decimal_latitude = PFloat (Finite x),
          decimal_longitude = PFloat (Finite y),
          year = PNone, month = PNone, day = PNone, event_date = PNone\<rparr>"
  by (simp add: make_record_def bind_err_def row_get_def safe_convert_missing
      safe_convert_date_missing safe_convert_finite)

lemma inf_year_row:
  "make_record [''decimalLatitude'' \<mapsto> PFloat (Finite x), ''decimalLongitude'' \<mapsto> PFloat (Finite y),
                ''year'' \<mapsto> PFloat PosInf] = Inl OverflowError"
proof -
  have inf: "safe_convert (PFloat PosInf) (Some py_int) = Inl OverflowError"
    by (simp add: safe_convert_def pd_isna_def py_str_def float_repr_def py_lower_inf
        py_int_def int_of_float_def)
  show ?thesis
    by (simp add: make_record_def bind_err_def row_get_def safe_convert_missing
        safe_convert_finite inf)
qed

text \<open>
  Claim C2 says that the clean record of every row is in the validated output if and only
  if its latitude and longitude are normalised to floats. The code breaks this where the
  field normaliser raises: in the table of the row (1.0, 1.0) and the row (2.0, 2.0) with
  the year \<^verbatim>\<open>float('inf')\<close>, both coordinates of the second row are normalised to floats,
  but \<^verbatim>\<open>int\<close> of its year raises \<^verbatim>\<open>OverflowError\<close> (line 117), which leaves the step of the
  loop, the loop and the \<^verbatim>\<open>try\<close> statement: neither record is retained and nothing is
  inserted.
\<close>

theorem validation_aborts_on_inf_year:
  "safe_convert (row_get [''decimalLatitude'' \<mapsto> PFloat (Finite 2),
       ''decimalLongitude'' \<mapsto> PFloat (Finite 2), ''year'' \<mapsto> PFloat PosInf] ''decimalLatitude'')
     (Some py_float) = Inr (PFloat (Finite 2)) \<and>
   safe_convert (row_get [''decimalLatitude'' \<mapsto> PFloat (Finite 2),
       ''decimalLongitude'' \<mapsto> PFloat (Finite 2), ''year'' \<mapsto> PFloat PosInf] ''decimalLongitude'')
     (Some py_float) = Inr (PFloat (Finite 2)) \<and>
   validate_row records [''decimalLatitude'' \<mapsto> PFloat (Finite 2),
       ''decimalLongitude'' \<mapsto> PFloat (Finite 2), ''year'' \<mapsto> PFloat PosInf] = Inl OverflowError \<and>
   validate_rows
     [[''decimalLatitude'' \<mapsto> PFloat (Finite 1), ''decimalLongitude'' \<mapsto> PFloat (Finite 1)],
      [''decimalLatitude'' \<mapsto> PFloat (Finite 2), ''decimalLongitude'' \<mapsto> PFloat (Finite 2),
       ''year'' \<mapsto> PFloat PosInf]] [] = Inl OverflowError \<and>
   save_to_supabase ins
     [[''decimalLatitude'' \<mapsto> PFloat (Finite 1), ''decimalLongitude'' \<mapsto> PFloat (Finite 1)],
      [''decimalLatitude'' \<mapsto> PFloat (Finite 2), ''decimalLongitude'' \<mapsto> PFloat (Finite 2),
       ''year'' \<mapsto> PFloat PosInf]] s0 =
     (\<lparr>store = s0, requests = [], total_inserted = 0, printed = []\<rparr>, Inl OverflowError)"
  by (simp add: row_get_def safe_convert_finite validate_row_def inf_year_row plain_row
      save_to_supabase_def)

subsection \<open>Range checks\<close>





subsection \<open>The batch loader\<close>

lemma py_range_250: "py_range 250 100 = Inr [0, 100, 200]"
  by (simp add: py_range_def upt_rec)

lemma save_to_supabase_validated:
  "validate_rows rows [] = Inr records \<Longrightarrow>
   save_to_supabase ins rows s0 = insert_batches ins records s0"
  by (simp add: save_to_supabase_def)

lemma save_to_supabase_raised:
  "validate_rows rows [] = Inl e \<Longrightarrow>
   save_to_supabase ins rows s0 =
     (\<lparr>store = s0, requests = [], total_inserted = 0, printed = []\<rparr>, Inl e)"
  by (simp add: save_to_supabase_def)

text \<open>
  Claim C8: with zero validated records the loader issues no insert request and finishes
  with a total of 0 and no exception.
\<close>

theorem empty_load:
  "insert_batches ins [] s0 =
     (\<lparr>store = s0, requests = [], total_inserted = 0, printed = []\<rparr>, Inr 0)"
  by (simp add: insert_batches_def py_range_def batch_size_def)

text \<open>
  Claim C1: 250 records are cut into the contiguous batches of sizes 100, 100 and 50, sent
  in that order when every insert succeeds. When the insert of the second batch raises,
  the requests issued are the first two batches, each once, the third batch is never
  sent, the total stays at 100 (the one progress line printed reports 100 of 250), and
  the exception is the outcome.
\<close>

theorem load_250:
  "length records = 250 \<Longrightarrow>
   (let b1 = take 100 records; b2 = take 100 (drop 100 records); b3 = drop 200 records in
      map length [b1, b2, b3] = [100, 100, 50] \<and> b1 @ b2 @ b3 = records \<and>
      (\<forall>s1 s2 s3. ins s0 b1 = Inr s1 \<and> ins s1 b2 = Inr s2 \<and> ins s2 b3 = Inr s3 \<longrightarrow>
         insert_batches ins records s0 =
           (\<lparr>store = s3, requests = [b1, b2, b3], total_inserted = 250,
             printed = [(1, 100, 250), (2, 200, 250), (3, 250, 250)]\<rparr>, Inr 250)) \<and>
      (\<forall>s1 e. ins s0 b1 = Inr s1 \<and> ins s1 b2 = Inl e \<longrightarrow>
         insert_batches ins records s0 =
           (\<lparr>store = s1, requests = [b1, b2], total_inserted = 100,
             printed = [(1, 100, 250)]\<rparr>, Inl e)))"
proof -
  assume len: "length records = 250"
  have split: "take 100 records @ take 100 (drop 100 records) @ drop 200 records = records"
  proof -
    have "take 100 (drop 100 records) @ drop 200 records = drop 100 records"
      using append_take_drop_id [of 100 "drop 100 records"] by simp
    then show ?thesis by simp
  qed
  have take3: "take 100 (drop 200 records) = drop 200 records"
    using len by simp
  show ?thesis
    using len split
    by (simp add: Let_def insert_batches_def batch_size_def py_range_250 take3)
qed

theorem load_250_witness:
  "length (replicate 250 (0::nat)) = 250 \<and>
   insert_batches (\<lambda>s b. if s = Suc 0 then Inl (StoreError ''insert failed'') else Inr (Suc s))
       (replicate 250 (0::nat)) 0 =
     (\<lparr>store = Suc 0, requests = [replicate 100 0, replicate 100 0], total_inserted = 100,
       printed = [(1, 100, 250)]\<rparr>, Inl (StoreError ''insert failed'')) \<and>
   insert_batches (\<lambda>s b. Inr (s + length b)) (replicate 250 (0::nat)) 0 =
     (\<lparr>store = 250, requests = [replicate 100 0, replicate 100 0, replicate 50 0],
       total_inserted = 250, printed = [(1, 100, 250), (2, 200, 250), (3, 250, 250)]\<rparr>, Inr 250)"
  using load_250 [of "replicate 250 (0::nat)"
      "\<lambda>s b. if s = Suc 0 then Inl (StoreError ''insert failed'') else Inr (Suc s)" 0]
    load_250 [of "replicate 250 (0::nat)" "\<lambda>s b. Inr (s + length b)" 0]
  by (simp add: Let_def)

end
